theory Spec2Isabelle
  imports Complex_Main
begin

section \<open>Identifiers, strings and time\<close>

text \<open>
  Strings are lists of characters; a \<^typ>\<open>char\<close> stands for the code point of the same
  number, so the model covers the strings over code points below 256.

  An \<open>ObjectId\<close> of the store is a 12-byte value. It is represented by its canonical text,
  the 24 lower-case hexadecimal digits that \<open>str\<close> prints, so that \<open>str\<close> of an identifier
  is the identifier itself. The constructor \<open>ObjectId(s)\<close> of the driver accepts a text of
  24 hexadecimal digits, in either case, and raises \<open>InvalidId\<close> on every other text;
  \<open>None\<close> stands for that exception.
\<close>

type_synonym object_id = string

definition is_hex :: "char \<Rightarrow> bool" where
  "is_hex c = (c \<in> set ''0123456789abcdefABCDEF'')"

definition lower_hex :: "char \<Rightarrow> char" where
  "lower_hex c =
     (if c = CHR ''A'' then CHR ''a''
      else if c = CHR ''B'' then CHR ''b''
      else if c = CHR ''C'' then CHR ''c''
      else if c = CHR ''D'' then CHR ''d''
      else if c = CHR ''E'' then CHR ''e''
      else if c = CHR ''F'' then CHR ''f''
      else c)"

definition ObjectId :: "string \<Rightarrow> object_id option" where
  "ObjectId s = (if length s = 24 \<and> list_all is_hex s then Some (map lower_hex s) else None)"

datatype error =
    InvalidIdentifier   \<comment> \<open>HTTP 400, raised by \<open>oid\<close>\<close>
  | NotFound            \<comment> \<open>HTTP 404\<close>
  | DuplicateCode       \<comment> \<open>HTTP 400, the access code is in use\<close>
  | ServerError         \<comment> \<open>an exception that no handler of the program catches\<close>

text \<open>\<open>oid\<close> of main.py: every exception of the constructor becomes the client error.\<close>

definition oid :: "string \<Rightarrow> error + object_id" where
  "oid id_str = (case ObjectId id_str of None \<Rightarrow> Inl InvalidIdentifier | Some i \<Rightarrow> Inr i)"

text \<open>
  The store generates the identifier of an inserted document. The generator is modelled
  as a counter printed with 24 hexadecimal digits; that the printed identifier is not in
  use yet is the store's guarantee and appears as a hypothesis where a result depends on it.
\<close>

definition hex_digit :: "nat \<Rightarrow> char" where
  "hex_digit d = ''0123456789abcdef'' ! (d mod 16)"

definition new_oid :: "nat \<Rightarrow> object_id" where
  "new_oid n = map (\<lambda>k. hex_digit (n div 16 ^ k)) (rev [0..<24])"

text \<open>
  \<open>str.strip()\<close>: leading and trailing white space is removed. Below code point 256 the
  white space of Python is 9 to 13, 28 to 32, 133 and 160.
\<close>

definition is_space :: "char \<Rightarrow> bool" where
  "is_space c =
     (let n = (of_char c :: nat)
      in (9 \<le> n \<and> n \<le> 13) \<or> (28 \<le> n \<and> n \<le> 32) \<or> n = 133 \<or> n = 160)"

definition strip :: "string \<Rightarrow> string" where
  "strip s = rev (dropWhile is_space (rev (dropWhile is_space s)))"

text \<open>
  A \<open>datetime\<close> in UTC, as \<open>datetime.now(timezone.utc)\<close> returns it, and its
  \<open>isoformat()\<close>: \<open>YYYY-MM-DDTHH:MM:SS[.ffffff]+00:00\<close>.
\<close>

record datetime =
  year :: nat
  month :: nat
  day :: nat
  hour :: nat
  minute :: nat
  second :: nat
  microsecond :: nat

definition dec_digit :: "nat \<Rightarrow> char" where
  "dec_digit d = ''0123456789'' ! (d mod 10)"

definition zero_pad :: "nat \<Rightarrow> nat \<Rightarrow> string" where
  "zero_pad w n = map (\<lambda>k. dec_digit (n div 10 ^ k)) (rev [0..<w])"

definition isoformat :: "datetime \<Rightarrow> string" where
  "isoformat t =
     zero_pad 4 (year t) @ ''-'' @ zero_pad 2 (month t) @ ''-'' @ zero_pad 2 (day t) @ ''T'' @
     zero_pad 2 (hour t) @ '':'' @ zero_pad 2 (minute t) @ '':'' @ zero_pad 2 (second t) @
     (if microsecond t = 0 then [] else ''.'' @ zero_pad 6 (microsecond t)) @ ''+00:00''"

section \<open>Schemas (schemas.py)\<close>

text \<open>
  Each Pydantic model is a record; a \<open>Literal\<close> of strings is a datatype of its members,
  an \<open>Optional\<close> field an option. The fields carry a prefix naming their model, since
  several models have a \<open>student_id\<close>, a \<open>status\<close> or a \<open>grade\<close>. The \<open>float\<close> of a grade
  is only stored and returned, never computed with, and is a real number here.
\<close>

datatype gender = boy | girl

datatype grade_level = grade_1 | grade_2 | grade_3

datatype lesson_status = scheduled | completed | cancelled | rescheduled

datatype homework_status = hw_pending | hw_submitted | hw_graded

datatype submission_status = sub_submitted | sub_graded

datatype sender = from_teacher | from_student

record Student =
  st_name :: string
  st_gender :: gender
  st_grade :: grade_level
  st_code :: string
  st_avatar :: gender

record Lesson =
  le_student_id :: string
  le_date :: string
  le_start_time :: string
  le_topic :: string
  le_notes :: "string option"
  le_status :: lesson_status

record Homework =
  hw_student_id :: string
  hw_lesson_id :: "string option"
  hw_title :: string
  hw_description :: "string option"
  hw_due_date :: "string option"
  hw_attachment_url :: "string option"
  hw_status :: homework_status

record Submission =
  sub_homework_id :: string
  sub_student_id :: string
  sub_file_url :: "string option"
  sub_submitted_at :: "string option"
  sub_status :: submission_status
  sub_grade :: "real option"
  sub_feedback :: "string option"

record Message =
  msg_student_id :: string
  msg_sender :: sender
  msg_text :: string
  msg_read :: bool

section \<open>The document store\<close>

text \<open>
  A stored document is the dump of a schema object (\<open>body\<close>) with the \<open>_id\<close> the store
  gave it (\<open>doc_id\<close>), the \<open>created_at\<close> of the insertion and the \<open>updated_at\<close> that the
  updates set. Every document of the five collections is written by this program from a
  validated schema object, so each collection is a list of such documents, in insertion
  order.

  The state holds the five collections, the identifier generator, the clock, and the
  list of the accesses made to the store so far (\<open>trace\<close>): each call of a method of
  \<open>db[...]\<close> appends the call and the name of its collection.
\<close>

record 'a stored =
  doc_id :: object_id
  created_at :: datetime
  updated_at :: "datetime option"
  body :: 'a

datatype db_method = Find | FindOne | InsertOne | UpdateOne | DeleteOne | DeleteMany

type_synonym access = "db_method \<times> string"

record database =
  student :: "Student stored list"
  lesson :: "Lesson stored list"
  homework :: "Homework stored list"
  submission :: "Submission stored list"
  message :: "Message stored list"
  next_oid :: nat
  clock :: datetime
  trace :: "access list"

text \<open>\<open>db[name]\<close>: a collection is reached by its name, its reader and its writer.\<close>

record 'a collection =
  cname :: string
  get :: "database \<Rightarrow> 'a stored list"
  put :: "'a stored list \<Rightarrow> database \<Rightarrow> database"

definition db_student :: "Student collection" where
  "db_student = \<lparr>cname = ''student'', get = student, put = (\<lambda>xs db. db\<lparr>student := xs\<rparr>)\<rparr>"

definition db_lesson :: "Lesson collection" where
  "db_lesson = \<lparr>cname = ''lesson'', get = lesson, put = (\<lambda>xs db. db\<lparr>lesson := xs\<rparr>)\<rparr>"

definition db_homework :: "Homework collection" where
  "db_homework = \<lparr>cname = ''homework'', get = homework, put = (\<lambda>xs db. db\<lparr>homework := xs\<rparr>)\<rparr>"

definition db_submission :: "Submission collection" where
  "db_submission =
     \<lparr>cname = ''submission'', get = submission, put = (\<lambda>xs db. db\<lparr>submission := xs\<rparr>)\<rparr>"

definition db_message :: "Message collection" where
  "db_message = \<lparr>cname = ''message'', get = message, put = (\<lambda>xs db. db\<lparr>message := xs\<rparr>)\<rparr>"

definition accessed :: "db_method \<Rightarrow> 'a collection \<Rightarrow> database \<Rightarrow> database" where
  "accessed m c db = db\<lparr>trace := trace db @ [(m, cname c)]\<rparr>"

text \<open>
  The methods of a collection. A filter is the predicate it denotes on stored documents.
  \<open>find_one\<close> returns the first match in insertion order; \<open>update_one\<close> and \<open>delete_one\<close>
  act on the first match and return \<open>matched_count\<close> or \<open>deleted_count\<close>; \<open>delete_many\<close>
  removes every match and returns their number.
\<close>

fun remove_first :: "('a \<Rightarrow> bool) \<Rightarrow> 'a list \<Rightarrow> 'a list" where
  "remove_first p [] = []"
| "remove_first p (x # xs) = (if p x then xs else x # remove_first p xs)"

fun update_first :: "('a \<Rightarrow> bool) \<Rightarrow> ('a \<Rightarrow> 'a) \<Rightarrow> 'a list \<Rightarrow> 'a list" where
  "update_first p f [] = []"
| "update_first p f (x # xs) = (if p x then f x # xs else x # update_first p f xs)"

definition count_one :: "('a \<Rightarrow> bool) \<Rightarrow> 'a list \<Rightarrow> nat" where
  "count_one p xs = (if list_ex p xs then 1 else 0)"

definition find_one ::
  "'a collection \<Rightarrow> ('a stored \<Rightarrow> bool) \<Rightarrow> database \<Rightarrow> 'a stored option \<times> database" where
  "find_one c p db = (List.find p (get c db), accessed FindOne c db)"

definition find_many ::
  "'a collection \<Rightarrow> ('a stored \<Rightarrow> bool) \<Rightarrow> database \<Rightarrow> 'a stored list \<times> database" where
  "find_many c p db = (filter p (get c db), accessed Find c db)"

definition update_one ::
  "'a collection \<Rightarrow> ('a stored \<Rightarrow> bool) \<Rightarrow> ('a stored \<Rightarrow> 'a stored) \<Rightarrow> database
     \<Rightarrow> nat \<times> database" where
  "update_one c p f db =
     (count_one p (get c db), accessed UpdateOne c (put c (update_first p f (get c db)) db))"

definition delete_one ::
  "'a collection \<Rightarrow> ('a stored \<Rightarrow> bool) \<Rightarrow> database \<Rightarrow> nat \<times> database" where
  "delete_one c p db =
     (count_one p (get c db), accessed DeleteOne c (put c (remove_first p (get c db)) db))"

definition delete_many ::
  "'a collection \<Rightarrow> ('a stored \<Rightarrow> bool) \<Rightarrow> database \<Rightarrow> nat \<times> database" where
  "delete_many c p db =
     (length (filter p (get c db)),
      accessed DeleteMany c (put c (filter (\<lambda>d. \<not> p d) (get c db)) db))"

text \<open>
  Modelled from the spec: \<open>create_document\<close> of database.py, which is not among the
  sources. The spec's adapter (4.2) says of it: insert stamps \<open>created_at\<close> with the
  current UTC time and returns the generated identifier, as a string; the inserted
  document itself is not returned.
\<close>

definition create_document :: "'a collection \<Rightarrow> 'a \<Rightarrow> database \<Rightarrow> string \<times> database" where
  "create_document c data db =
     (let i = new_oid (next_oid db);
          doc = \<lparr>doc_id = i, created_at = clock db, updated_at = None, body = data\<rparr>
      in (i, accessed InsertOne c ((put c (get c db @ [doc]) db)\<lparr>next_oid := Suc (next_oid db)\<rparr>)))"

section \<open>Serializer\<close>

text \<open>
  \<open>serialize\<close> of main.py: an absent document is returned as it is; otherwise \<open>_id\<close> is
  replaced by \<open>id\<close>, its text, and every \<open>datetime\<close> by its ISO text.
\<close>

record 'a serialized =
  s_id :: string
  s_created_at :: string
  s_updated_at :: "string option"
  s_body :: 'a

definition serialize :: "'a stored option \<Rightarrow> 'a serialized option" where
  "serialize doc =
     (case doc of
        None \<Rightarrow> None
      | Some d \<Rightarrow>
          Some \<lparr>s_id = doc_id d, s_created_at = isoformat (created_at d),
                s_updated_at = map_option isoformat (updated_at d), s_body = body d\<rparr>)"

section \<open>Homework and submissions (main.py)\<close>

definition delete_homework :: "string \<Rightarrow> database \<Rightarrow> (error + unit) \<times> database" where
  "delete_homework hw_id db =
     (let (unused, db1) = delete_many db_submission (\<lambda>d. sub_homework_id (body d) = hw_id) db
      in case oid hw_id of
           Inl e \<Rightarrow> (Inl e, db1)
         | Inr i \<Rightarrow>
             let (deleted_count, db2) = delete_one db_homework (\<lambda>d. doc_id d = i) db1
             in if deleted_count = 0 then (Inl NotFound, db2) else (Inr (), db2))"

text \<open>
  \<open>list_submissions\<close>: an argument that is absent or empty adds no condition to the
  query; the cursor is sorted by \<open>created_at\<close>, newest first, and each document serialized.
\<close>

definition truthy :: "string option \<Rightarrow> bool" where
  "truthy s = (case s of None \<Rightarrow> False | Some v \<Rightarrow> v \<noteq> [])"

fun lex_le :: "nat list \<Rightarrow> nat list \<Rightarrow> bool" where
  "lex_le [] ys = True"
| "lex_le (x # xs) [] = False"
| "lex_le (x # xs) (y # ys) = (x < y \<or> (x = y \<and> lex_le xs ys))"

definition dt_le :: "datetime \<Rightarrow> datetime \<Rightarrow> bool" where
  "dt_le a b =
     lex_le [year a, month a, day a, hour a, minute a, second a, microsecond a]
            [year b, month b, day b, hour b, minute b, second b, microsecond b]"

fun insert_desc :: "'a stored \<Rightarrow> 'a stored list \<Rightarrow> 'a stored list" where
  "insert_desc x [] = [x]"
| "insert_desc x (y # ys) =
     (if dt_le (created_at y) (created_at x) then x # y # ys else y # insert_desc x ys)"

definition sort_desc :: "'a stored list \<Rightarrow> 'a stored list" where
  "sort_desc xs = foldr insert_desc xs []"

definition list_submissions ::
  "string option \<Rightarrow> string option \<Rightarrow> database \<Rightarrow> Submission serialized option list \<times> database" where
  "list_submissions student_id homework_id db =
     (let q = (\<lambda>d. (truthy student_id \<longrightarrow> Some (sub_student_id (body d)) = student_id) \<and>
                    (truthy homework_id \<longrightarrow> Some (sub_homework_id (body d)) = homework_id));
          (items, db1) = find_many db_submission q db
      in (map (\<lambda>x. serialize (Some x)) (sort_desc items), db1))"

record SubmitRequest =
  file_url :: "string option"

text \<open>
  The \<open>$set\<close> documents of the updates: \<open>{status, updated_at}\<close> on a homework,
  \<open>{grade, feedback, status: graded, updated_at}\<close> on a submission, and the dump of a
  schema object with \<open>updated_at\<close>, which replaces every schema field.
\<close>

definition set_homework_status ::
  "homework_status \<Rightarrow> datetime \<Rightarrow> Homework stored \<Rightarrow> Homework stored" where
  "set_homework_status s t d =
     (let b = (body d)\<lparr>hw_status := s\<rparr> in d\<lparr>body := b, updated_at := Some t\<rparr>)"

definition set_graded ::
  "real \<Rightarrow> string option \<Rightarrow> datetime \<Rightarrow> Submission stored \<Rightarrow> Submission stored" where
  "set_graded g fb t d =
     (let b = (body d)\<lparr>sub_grade := Some g, sub_feedback := fb, sub_status := sub_graded\<rparr>
      in d\<lparr>body := b, updated_at := Some t\<rparr>)"

definition set_all :: "'a \<Rightarrow> datetime \<Rightarrow> 'a stored \<Rightarrow> 'a stored" where
  "set_all data t d = d\<lparr>body := data, updated_at := Some t\<rparr>"

text \<open>
  \<open>submit_homework\<close>. The two calls \<open>oid(hw_id)\<close> have the same value, since \<open>oid\<close> reads
  nothing but its argument; the model evaluates it once, where the source evaluates it
  first. \<open>ObjectId(inserted_id)\<close> is the bare constructor, whose exception nothing
  catches.
\<close>

definition submit_homework ::
  "string \<Rightarrow> string \<Rightarrow> SubmitRequest \<Rightarrow> database
     \<Rightarrow> (error + Submission serialized option) \<times> database" where
  "submit_homework hw_id student_id req db =
     (case oid hw_id of
        Inl e \<Rightarrow> (Inl e, db)
      | Inr i \<Rightarrow>
          let (hw, db1) = find_one db_homework (\<lambda>d. doc_id d = i) db
          in if hw = None then (Inl NotFound, db1)
             else
               let data = \<lparr>sub_homework_id = hw_id, sub_student_id = student_id,
                           sub_file_url = file_url req,
                           sub_submitted_at = Some (isoformat (clock db1)),
                           sub_status = sub_submitted, sub_grade = None, sub_feedback = None\<rparr>;
                   (inserted_id, db2) = create_document db_submission data db1;
                   (unused, db3) = update_one db_homework (\<lambda>d. doc_id d = i)
                                (set_homework_status hw_submitted (clock db2)) db2
               in (case ObjectId inserted_id of
                     None \<Rightarrow> (Inl ServerError, db3)
                   | Some j \<Rightarrow>
                       let (saved, db4) = find_one db_submission (\<lambda>d. doc_id d = j) db3
                       in (Inr (serialize saved), db4)))"

record GradeRequest =
  gr_grade :: real
  gr_feedback :: "string option"

text \<open>
  \<open>grade_submission\<close>. \<open>sub["homework_id"]\<close> on an absent document raises an exception
  that nothing catches; \<open>oid\<close> of the submission's \<open>homework_id\<close> can raise the client
  error, after the submission has been updated.
\<close>

definition grade_submission ::
  "string \<Rightarrow> GradeRequest \<Rightarrow> database \<Rightarrow> (error + Submission serialized option) \<times> database" where
  "grade_submission sub_id req db =
     (case oid sub_id of
        Inl e \<Rightarrow> (Inl e, db)
      | Inr i \<Rightarrow>
          let (matched_count, db1) = update_one db_submission (\<lambda>d. doc_id d = i)
                 (set_graded (gr_grade req) (gr_feedback req) (clock db)) db
          in if matched_count = 0 then (Inl NotFound, db1)
             else
               let (sub, db2) = find_one db_submission (\<lambda>d. doc_id d = i) db1
               in (case sub of
                     None \<Rightarrow> (Inl ServerError, db2)
                   | Some s \<Rightarrow>
                       (case oid (sub_homework_id (body s)) of
                          Inl e \<Rightarrow> (Inl e, db2)
                        | Inr h \<Rightarrow>
                            let (unused, db3) = update_one db_homework (\<lambda>d. doc_id d = h)
                                   (set_homework_status hw_graded (clock db2)) db2
                            in (Inr (serialize (Some s)), db3))))"

section \<open>Login (main.py)\<close>

text \<open>
  \<open>TEACHER_CODE\<close> is read from the environment when the module is loaded, with the
  default \<open>9999\<close>; its argument is the value of the variable, if set.
\<close>

definition TEACHER_CODE :: "string option \<Rightarrow> string" where
  "TEACHER_CODE env = (case env of None \<Rightarrow> ''9999'' | Some v \<Rightarrow> v)"

record LoginRequest =
  code :: string

datatype role = teacher_role | student_role

record LoginResponse =
  role :: role
  student_payload :: "Student serialized option"

definition login ::
  "string option \<Rightarrow> LoginRequest \<Rightarrow> database \<Rightarrow> (error + LoginResponse) \<times> database" where
  "login env req db =
     (let c = strip (code req)
      in if c = TEACHER_CODE env then (Inr \<lparr>role = teacher_role, student_payload = None\<rparr>, db)
         else
           let (st, db1) = find_one db_student (\<lambda>d. st_code (body d) = c) db
           in case st of
                Some s \<Rightarrow> (Inr \<lparr>role = student_role, student_payload = serialize (Some s)\<rparr>, db1)
              | None \<Rightarrow> (Inl NotFound, db1))"

section \<open>Students (main.py)\<close>

definition add_student ::
  "Student \<Rightarrow> database \<Rightarrow> (error + Student serialized option) \<times> database" where
  "add_student st db =
     (let (dup, db1) = find_one db_student (\<lambda>d. st_code (body d) = st_code st) db
      in if dup \<noteq> None then (Inl DuplicateCode, db1)
         else
           let (inserted_id, db2) = create_document db_student st db1
           in case ObjectId inserted_id of
                None \<Rightarrow> (Inl ServerError, db2)
              | Some i \<Rightarrow>
                  let (saved, db3) = find_one db_student (\<lambda>d. doc_id d = i) db2
                  in (Inr (serialize saved), db3))"

text \<open>
  \<open>update_student\<close>. \<open>oid(student_id)\<close> is evaluated while the first filter is built,
  before \<open>find_one\<close> is called; its later calls have the same value.
\<close>

definition update_student ::
  "string \<Rightarrow> Student \<Rightarrow> database \<Rightarrow> (error + Student serialized option) \<times> database" where
  "update_student student_id data db =
     (case oid student_id of
        Inl e \<Rightarrow> (Inl e, db)
      | Inr i \<Rightarrow>
          let (dup, db1) = find_one db_student
                              (\<lambda>d. st_code (body d) = st_code data \<and> doc_id d \<noteq> i) db
          in if dup \<noteq> None then (Inl DuplicateCode, db1)
             else
               let (matched_count, db2) = update_one db_student (\<lambda>d. doc_id d = i)
                      (set_all data (clock db1)) db1
               in if matched_count = 0 then (Inl NotFound, db2)
                  else
                    let (saved, db3) = find_one db_student (\<lambda>d. doc_id d = i) db2
                    in (Inr (serialize saved), db3))"

text \<open>
  \<open>delete_student\<close>. The loop over the student's homework deletes, for each, the
  submissions whose \<open>homework_id\<close> is the text of its \<open>_id\<close>.
\<close>

fun delete_submissions_of :: "Homework stored list \<Rightarrow> database \<Rightarrow> database" where
  "delete_submissions_of [] db = db"
| "delete_submissions_of (hw # hws) db =
     delete_submissions_of hws
       (snd (delete_many db_submission (\<lambda>d. sub_homework_id (body d) = doc_id hw) db))"

definition delete_student :: "string \<Rightarrow> database \<Rightarrow> (error + unit) \<times> database" where
  "delete_student student_id db =
     (case oid student_id of
        Inl e \<Rightarrow> (Inl e, db)
      | Inr i \<Rightarrow>
          let (unused, db1) = delete_many db_lesson (\<lambda>d. le_student_id (body d) = student_id) db;
              (hws, db2) = find_many db_homework (\<lambda>d. hw_student_id (body d) = student_id) db1;
              db3 = delete_submissions_of hws db2;
              (unused, db4) = delete_many db_homework (\<lambda>d. hw_student_id (body d) = student_id) db3;
              (unused, db5) = delete_many db_message (\<lambda>d. msg_student_id (body d) = student_id) db4;
              (deleted_count, db6) = delete_one db_student (\<lambda>d. doc_id d = i) db5
          in if deleted_count = 0 then (Inl NotFound, db6) else (Inr (), db6))"

section \<open>An example store\<close>

text \<open>
  One student with a lesson, a homework, a submission of that homework and a message;
  the theorems below are instantiated on it.
\<close>

definition t0 :: datetime where
  "t0 = \<lparr>year = 2024, month = 1, day = 2, hour = 3, minute = 4, second = 5, microsecond = 0\<rparr>"

definition id_student :: string where "id_student = ''65a000000000000000000001''"
definition id_lesson :: string where "id_lesson = ''65a000000000000000000002''"
definition id_homework :: string where "id_homework = ''65a000000000000000000003''"
definition id_submission :: string where "id_submission = ''65a000000000000000000004''"
definition id_message :: string where "id_message = ''65a000000000000000000005''"
definition id_absent :: string where "id_absent = ''65a0000000000000000000ff''"

definition sara :: Student where
  "sara = \<lparr>st_name = ''Sara'', st_gender = girl, st_grade = grade_2, st_code = ''1234'',
           st_avatar = girl\<rparr>"

definition store0 :: database where
  "store0 =
     \<lparr>student = [\<lparr>doc_id = id_student, created_at = t0, updated_at = None, body = sara\<rparr>],
      lesson = [\<lparr>doc_id = id_lesson, created_at = t0, updated_at = None,
                 body = \<lparr>le_student_id = id_student, le_date = ''2024-01-03'',
                          le_start_time = ''10:00'', le_topic = ''Reading'', le_notes = None,
                          le_status = scheduled\<rparr>\<rparr>],
      homework = [\<lparr>doc_id = id_homework, created_at = t0, updated_at = None,
                   body = \<lparr>hw_student_id = id_student, hw_lesson_id = None,
                            hw_title = ''Page 4'', hw_description = None, hw_due_date = None,
                            hw_attachment_url = None, hw_status = hw_pending\<rparr>\<rparr>],
      submission = [\<lparr>doc_id = id_submission, created_at = t0, updated_at = None,
                     body = \<lparr>sub_homework_id = id_homework, sub_student_id = id_student,
                              sub_file_url = None, sub_submitted_at = None,
                              sub_status = sub_submitted, sub_grade = None,
                              sub_feedback = None\<rparr>\<rparr>],
      message = [\<lparr>doc_id = id_message, created_at = t0, updated_at = None,
                  body = \<lparr>msg_student_id = id_student, msg_sender = from_teacher,
                           msg_text = ''Hello'', msg_read = False\<rparr>\<rparr>],
      next_oid = 6, clock = t0, trace = []\<rparr>"

definition omar :: Student where
  "omar = \<lparr>st_name = ''Omar'', st_gender = boy, st_grade = grade_1, st_code = ''5678'',
           st_avatar = boy\<rparr>"


text \<open>
  The identifiers of the example student and homework written with an upper-case digit,
  which \<open>ObjectId\<close> reads as the same identifiers, and the example store after a
  submission made through the upper-case text of the homework identifier.
\<close>

definition id_student_upper :: string where "id_student_upper = ''65A000000000000000000001''"
definition id_homework_upper :: string where "id_homework_upper = ''65A000000000000000000003''"

definition store2 :: database where
  "store2 = snd (submit_homework id_homework_upper id_student \<lparr>file_url = None\<rparr> store0)"

section \<open>Facts about the store's methods\<close>

lemmas db_defs = db_student_def db_lesson_def db_homework_def db_submission_def db_message_def

lemmas store_defs = find_one_def find_many_def update_one_def delete_one_def delete_many_def
  accessed_def create_document_def

lemmas id_defs = id_student_def id_lesson_def id_homework_def id_submission_def id_message_def
  id_absent_def

lemma oid_id_student: "oid id_student = Inr id_student"
  by (simp add: oid_def ObjectId_def is_hex_def lower_hex_def id_defs)

lemma oid_id_homework: "oid id_homework = Inr id_homework"
  by (simp add: oid_def ObjectId_def is_hex_def lower_hex_def id_defs)

lemma oid_id_submission: "oid id_submission = Inr id_submission"
  by (simp add: oid_def ObjectId_def is_hex_def lower_hex_def id_defs)

lemma oid_id_absent: "oid id_absent = Inr id_absent"
  by (simp add: oid_def ObjectId_def is_hex_def lower_hex_def id_defs)

lemma oid_id_student_upper: "oid id_student_upper = Inr id_student"
  by (simp add: oid_def ObjectId_def is_hex_def lower_hex_def id_defs id_student_upper_def)

lemma oid_id_homework_upper: "oid id_homework_upper = Inr id_homework"
  by (simp add: oid_def ObjectId_def is_hex_def lower_hex_def id_defs id_homework_upper_def)

lemma hex_table_ok:
  "k < 16 \<Longrightarrow> is_hex (''0123456789abcdef'' ! k) \<and>
     lower_hex (''0123456789abcdef'' ! k) = ''0123456789abcdef'' ! k"
  by (auto simp: numeral_eq_Suc less_Suc_eq is_hex_def lower_hex_def)

lemma hex_digit_ok: "is_hex (hex_digit d) \<and> lower_hex (hex_digit d) = hex_digit d"
  unfolding hex_digit_def by (rule hex_table_ok) simp

text \<open>A generated identifier is canonical: the constructor returns it as it is.\<close>

lemma ObjectId_new_oid: "ObjectId (new_oid n) = Some (new_oid n)"
proof -
  have "length (new_oid n) = 24" by (simp add: new_oid_def)
  moreover have "list_all is_hex (new_oid n)"
    by (simp add: new_oid_def list_all_iff hex_digit_ok)
  moreover have "map lower_hex (new_oid n) = new_oid n"
    by (simp add: new_oid_def hex_digit_ok)
  ultimately show ?thesis by (simp add: ObjectId_def)
qed

lemma last_new_oid: "last (new_oid n) = hex_digit n"
proof -
  have "[0..<24] = 0 # [1..<24]" by (simp add: upt_conv_Cons)
  then show ?thesis by (simp add: new_oid_def)
qed

lemma new_oid_store0: "id_student \<noteq> new_oid (next_oid store0)"
proof
  assume "id_student = new_oid (next_oid store0)"
  then have "last id_student = last (new_oid (next_oid store0))" by simp
  then show False
    by (simp add: last_new_oid store0_def hex_digit_def id_defs)
qed

lemma oid_valid_nonempty: "oid s = Inr i \<Longrightarrow> s \<noteq> []"
  by (auto simp: oid_def ObjectId_def split: if_splits)

lemma sort_desc_Nil: "sort_desc [] = []"
  by (simp add: sort_desc_def)

lemma filter_filter_neg: "filter p (filter (\<lambda>d. \<not> p d) xs) = []"
  by (induction xs) auto

lemma find_append_last:
  "List.find p (xs @ [x]) =
     (case List.find p xs of Some y \<Rightarrow> Some y | None \<Rightarrow> if p x then Some x else None)"
  by (induction xs) auto

lemma list_ex_find: "list_ex p xs \<longleftrightarrow> List.find p xs \<noteq> None"
  by (induction xs) auto

lemma find_None_set: "List.find p xs = None \<longleftrightarrow> (\<forall>x\<in>set xs. \<not> p x)"
  by (induction xs) auto

lemma find_Some_holds: "List.find p xs = Some x \<Longrightarrow> p x"
  by (induction xs) (auto split: if_splits)

lemma update_first_absent: "\<not> list_ex p xs \<Longrightarrow> update_first p f xs = xs"
  by (induction xs) auto

lemma find_update_first:
  "(\<And>x. p x \<Longrightarrow> p (f x)) \<Longrightarrow>
     List.find p (update_first p f xs) = map_option f (List.find p xs)"
  by (induction xs) auto

lemma store2_effect:
  "map (\<lambda>d. sub_homework_id (body d)) (submission store2) = [id_homework, id_homework_upper]"
  "map doc_id (homework store2) = [id_homework]"
  "map (\<lambda>d. hw_student_id (body d)) (homework store2) = [id_student]"
  "student store2 = student store0"
  by (simp_all add: store2_def submit_homework_def oid_id_homework_upper store_defs db_defs
      ObjectId_new_oid Let_def store0_def set_homework_status_def split: prod.splits)

section \<open>Deleting a homework\<close>

lemma delete_homework_upper_case_submission:
  "fst (delete_homework id_homework store2) = Inr ()
   \<and> homework (snd (delete_homework id_homework store2)) = []
   \<and> map (\<lambda>d. sub_homework_id (body d)) (submission (snd (delete_homework id_homework store2)))
       = [id_homework_upper]"
proof -
  have x: "list_ex (\<lambda>d. doc_id d = id_homework) (homework store2)"
    using store2_effect(2) by (cases "homework store2") auto
  have r: "remove_first (\<lambda>d. doc_id d = id_homework) (homework store2) = []"
    using store2_effect(2) by (cases "homework store2") auto
  have s: "map (\<lambda>d. sub_homework_id (body d))
             (filter (\<lambda>d. sub_homework_id (body d) \<noteq> id_homework) (submission store2))
           = [id_homework_upper]"
    by (simp add: store2_def submit_homework_def oid_id_homework_upper store_defs db_defs
          ObjectId_new_oid Let_def store0_def set_homework_status_def split: prod.splits,
        simp add: id_defs id_homework_upper_def)
  show ?thesis
    using x r s
    by (simp add: delete_homework_def oid_id_homework store_defs db_defs count_one_def
        split: prod.splits)
qed

text \<open>
  C7. \<open>delete_homework\<close> deletes the submissions whose \<open>homework_id\<close> is the text of the
  request, and the homework whose \<open>_id\<close> is the identifier that text denotes. On the
  upper-case text of the identifier of the example homework the call succeeds and the
  homework is deleted, but its submission, stored under the text of the homework's own
  \<open>_id\<close>, remains: listing the submissions by that identifier still returns it.
\<close>

theorem delete_homework_upper_case_identifier:
  "oid id_homework_upper = Inr id_homework
   \<and> map doc_id (homework store0) = [id_homework]
   \<and> map (\<lambda>d. sub_homework_id (body d)) (submission store0) = [id_homework]
   \<and> fst (delete_homework id_homework_upper store0) = Inr ()
   \<and> homework (snd (delete_homework id_homework_upper store0)) = []
   \<and> submission (snd (delete_homework id_homework_upper store0)) = submission store0
   \<and> map (map_option s_id)
        (fst (list_submissions None (Some id_homework)
                (snd (delete_homework id_homework_upper store0))))
       = [Some id_submission]"
proof -
  have d: "map doc_id (homework store0) = [id_homework]
           \<and> map (\<lambda>d. sub_homework_id (body d)) (submission store0) = [id_homework]"
    by (simp add: store0_def)
  have s: "filter (\<lambda>d. sub_homework_id (body d) \<noteq> id_homework_upper) (submission store0)
           = submission store0"
    by (simp add: store0_def id_defs id_homework_upper_def)
  have x: "list_ex (\<lambda>d. doc_id d = id_homework) (homework store0)"
    by (simp add: store0_def)
  have r: "remove_first (\<lambda>d. doc_id d = id_homework) (homework store0) = []"
    by (simp add: store0_def)
  have a: "fst (delete_homework id_homework_upper store0) = Inr ()"
    using x by (simp add: delete_homework_def oid_id_homework_upper store_defs db_defs count_one_def
        split: prod.splits)
  have b: "homework (snd (delete_homework id_homework_upper store0)) = []"
    using r by (simp add: delete_homework_def oid_id_homework_upper store_defs db_defs
        split: prod.splits)
  have c: "submission (snd (delete_homework id_homework_upper store0)) = submission store0"
    using s by (simp add: delete_homework_def oid_id_homework_upper store_defs db_defs
        split: prod.splits)
  have q: "filter (\<lambda>d. sub_homework_id (body d) = id_homework) (submission store0)
           = submission store0"
    by (simp add: store0_def)
  have n: "id_homework \<noteq> []"
    by (simp add: id_defs)
  have o: "map (map_option s_id) (map (\<lambda>x. serialize (Some x)) (sort_desc (submission store0)))
           = [Some id_submission]"
    by (simp add: store0_def sort_desc_def serialize_def)
  have g: "map (map_option s_id)
        (fst (list_submissions None (Some id_homework)
                (snd (delete_homework id_homework_upper store0))))
       = [Some id_submission]"
    using o by (simp add: list_submissions_def store_defs db_defs truthy_def c q n
        split: prod.splits)
  show ?thesis
    using oid_id_homework_upper d a b c g by blast
qed

theorem delete_homework_upper_case_identifier_witness:
  "length (fst (list_submissions None (Some id_homework)
                  (snd (delete_homework id_homework_upper store0)))) = 1"
proof -
  have "map (map_option s_id)
        (fst (list_submissions None (Some id_homework)
                (snd (delete_homework id_homework_upper store0))))
       = [Some id_submission]"
    using delete_homework_upper_case_identifier by blast
  then have "length (map (map_option s_id)
        (fst (list_submissions None (Some id_homework)
                (snd (delete_homework id_homework_upper store0))))) = length [Some id_submission]"
    by (rule arg_cong)
  then show ?thesis by simp
qed

section \<open>Submitting and grading\<close>

text \<open>
  C2. For a structurally valid homework identifier and every student identifier: when a
  homework with that \<open>_id\<close> exists, \<open>submit_homework\<close> inserts one submission, with
  \<open>status\<close> submitted and the ISO text of the clock as \<open>submitted_at\<close>, then sets the status
  of that homework to submitted, in this order, and succeeds; when none exists it answers
  \<open>NotFound\<close> after the one lookup and the submissions are as before.
\<close>

theorem submit_homework_effect:
  assumes "oid hw_id = Inr i"
  shows "(list_ex (\<lambda>d. doc_id d = i) (homework db) \<longrightarrow>
            submission (snd (submit_homework hw_id student_id req db)) =
              submission db @
                [\<lparr>doc_id = new_oid (next_oid db), created_at = clock db, updated_at = None,
                  body = \<lparr>sub_homework_id = hw_id, sub_student_id = student_id,
                           sub_file_url = file_url req,
                           sub_submitted_at = Some (isoformat (clock db)),
                           sub_status = sub_submitted, sub_grade = None, sub_feedback = None\<rparr>\<rparr>]
          \<and> homework (snd (submit_homework hw_id student_id req db)) =
              update_first (\<lambda>d. doc_id d = i) (set_homework_status hw_submitted (clock db))
                (homework db)
          \<and> map_option (\<lambda>d. hw_status (body d))
              (List.find (\<lambda>d. doc_id d = i) (homework (snd (submit_homework hw_id student_id req db))))
              = Some hw_submitted
          \<and> trace (snd (submit_homework hw_id student_id req db)) =
              trace db @ [(FindOne, ''homework''), (InsertOne, ''submission''),
                          (UpdateOne, ''homework''), (FindOne, ''submission'')]
          \<and> (\<exists>r. fst (submit_homework hw_id student_id req db) = Inr (Some r)))
       \<and> (\<not> list_ex (\<lambda>d. doc_id d = i) (homework db) \<longrightarrow>
            fst (submit_homework hw_id student_id req db) = Inl NotFound
          \<and> submission (snd (submit_homework hw_id student_id req db)) = submission db
          \<and> trace (snd (submit_homework hw_id student_id req db)) =
              trace db @ [(FindOne, ''homework'')])"
proof (cases "List.find (\<lambda>d. doc_id d = i) (homework db)")
  case None
  then show ?thesis using assms
    by (simp add: submit_homework_def store_defs db_defs list_ex_find)
next
  case (Some h)
  have st: "map_option (\<lambda>d. hw_status (body d))
      (List.find (\<lambda>d. doc_id d = i)
         (update_first (\<lambda>d. doc_id d = i) (set_homework_status hw_submitted (clock db)) (homework db)))
      = Some hw_submitted"
    by (subst find_update_first) (simp_all add: set_homework_status_def Some)
  show ?thesis using assms Some st
    by (simp add: submit_homework_def store_defs db_defs list_ex_find ObjectId_new_oid
        find_append_last serialize_def Let_def split: option.splits prod.splits)
qed

theorem submit_homework_effect_witness:
  "(oid id_homework = Inr id_homework
     \<and> list_ex (\<lambda>d. doc_id d = id_homework) (homework store0)
     \<and> map (\<lambda>d. sub_status (body d))
          (submission (snd (submit_homework id_homework id_student \<lparr>file_url = None\<rparr> store0)))
         = [sub_submitted, sub_submitted]
     \<and> map (\<lambda>d. hw_status (body d))
          (homework (snd (submit_homework id_homework id_student \<lparr>file_url = None\<rparr> store0)))
         = [hw_submitted])
 \<and> (oid id_absent = Inr id_absent
     \<and> \<not> list_ex (\<lambda>d. doc_id d = id_absent) (homework store0)
     \<and> fst (submit_homework id_absent id_student \<lparr>file_url = None\<rparr> store0) = Inl NotFound
     \<and> submission (snd (submit_homework id_absent id_student \<lparr>file_url = None\<rparr> store0))
         = submission store0)"
proof -
  have h: "list_ex (\<lambda>d. doc_id d = id_homework) (homework store0)"
    by (simp add: store0_def)
  have n: "\<not> list_ex (\<lambda>d. doc_id d = id_absent) (homework store0)"
    by (simp add: store0_def id_defs)
  have s: "map (\<lambda>d. sub_status (body d)) (submission store0) = [sub_submitted]"
    by (simp add: store0_def)
  have u: "map (\<lambda>d. hw_status (body d))
             (update_first (\<lambda>d. doc_id d = id_homework)
                (set_homework_status hw_submitted (clock store0)) (homework store0))
           = [hw_submitted]"
    by (simp add: store0_def set_homework_status_def)
  show ?thesis
    using submit_homework_effect [OF oid_id_homework, of store0 id_student "\<lparr>file_url = None\<rparr>"]
          submit_homework_effect [OF oid_id_absent, of store0 id_student "\<lparr>file_url = None\<rparr>"]
    by (simp add: h n s u oid_id_homework oid_id_absent)
qed

text \<open>
  C3. For a structurally valid submission identifier: when a submission \<open>s\<close> with that
  \<open>_id\<close> exists (its \<open>homework_id\<close> being an identifier, as \<open>submit_homework\<close> stores it),
  \<open>grade_submission\<close> sets its status to graded and stores the grade and the feedback,
  then sets the status of the homework with that identifier to graded; when no such
  homework exists the homework collection is unchanged and the grading succeeds all the
  same, returning the graded submission. When no submission has that \<open>_id\<close> the answer is
  \<open>NotFound\<close> and nothing changes.
\<close>

theorem grade_submission_effect:
  assumes "oid sub_id = Inr i"
  shows "(\<forall>s h. List.find (\<lambda>d. doc_id d = i) (submission db) = Some s
              \<and> oid (sub_homework_id (body s)) = Inr h \<longrightarrow>
            submission (snd (grade_submission sub_id req db)) =
              update_first (\<lambda>d. doc_id d = i)
                (set_graded (gr_grade req) (gr_feedback req) (clock db)) (submission db)
          \<and> List.find (\<lambda>d. doc_id d = i) (submission (snd (grade_submission sub_id req db))) =
              Some (s\<lparr>body := (body s)\<lparr>sub_grade := Some (gr_grade req),
                                         sub_feedback := gr_feedback req,
                                         sub_status := sub_graded\<rparr>,
                      updated_at := Some (clock db)\<rparr>)
          \<and> homework (snd (grade_submission sub_id req db)) =
              update_first (\<lambda>d. doc_id d = h) (set_homework_status hw_graded (clock db))
                (homework db)
          \<and> (list_ex (\<lambda>d. doc_id d = h) (homework db) \<longrightarrow>
               map_option (\<lambda>d. hw_status (body d))
                 (List.find (\<lambda>d. doc_id d = h) (homework (snd (grade_submission sub_id req db))))
               = Some hw_graded)
          \<and> (\<not> list_ex (\<lambda>d. doc_id d = h) (homework db) \<longrightarrow>
               homework (snd (grade_submission sub_id req db)) = homework db)
          \<and> fst (grade_submission sub_id req db) =
              Inr (serialize (Some (set_graded (gr_grade req) (gr_feedback req) (clock db) s)))
          \<and> trace (snd (grade_submission sub_id req db)) =
              trace db @ [(UpdateOne, ''submission''), (FindOne, ''submission''),
                          (UpdateOne, ''homework'')])
       \<and> (List.find (\<lambda>d. doc_id d = i) (submission db) = None \<longrightarrow>
            fst (grade_submission sub_id req db) = Inl NotFound
          \<and> submission (snd (grade_submission sub_id req db)) = submission db
          \<and> homework (snd (grade_submission sub_id req db)) = homework db)"
proof (cases "List.find (\<lambda>d. doc_id d = i) (submission db)")
  case None
  then have "\<not> list_ex (\<lambda>d. doc_id d = i) (submission db)" by (simp add: list_ex_find)
  then show ?thesis using assms None
    by (simp add: grade_submission_def store_defs db_defs count_one_def update_first_absent)
next
  case (Some s)
  let ?g = "set_graded (gr_grade req) (gr_feedback req) (clock db)"
  have ex: "list_ex (\<lambda>d. doc_id d = i) (submission db)" using Some by (simp add: list_ex_find)
  have f: "List.find (\<lambda>d. doc_id d = i) (update_first (\<lambda>d. doc_id d = i) ?g (submission db))
            = Some (?g s)"
    by (subst find_update_first) (simp_all add: set_graded_def Some)
  have hid: "sub_homework_id (body (?g s)) = sub_homework_id (body s)"
    by (simp add: set_graded_def)
  have gs: "?g s = s\<lparr>body := (body s)\<lparr>sub_grade := Some (gr_grade req),
                                         sub_feedback := gr_feedback req,
                                         sub_status := sub_graded\<rparr>,
                      updated_at := Some (clock db)\<rparr>"
    by (simp add: set_graded_def)
  have st: "\<And>h. list_ex (\<lambda>d. doc_id d = h) (homework db) \<Longrightarrow>
      map_option (\<lambda>d. hw_status (body d))
        (List.find (\<lambda>d. doc_id d = h)
           (update_first (\<lambda>d. doc_id d = h) (set_homework_status hw_graded (clock db)) (homework db)))
      = Some hw_graded"
    by (subst find_update_first) (auto simp: set_homework_status_def list_ex_find)
  show ?thesis using assms Some ex f hid st gs[symmetric]
    by (simp add: grade_submission_def store_defs db_defs count_one_def update_first_absent
        Let_def split: prod.splits)
qed

theorem grade_submission_effect_witness:
  "oid id_submission = Inr id_submission
   \<and> List.find (\<lambda>d. doc_id d = id_submission) (submission store0) = Some (hd (submission store0))
   \<and> oid (sub_homework_id (body (hd (submission store0)))) = Inr id_homework
   \<and> list_ex (\<lambda>d. doc_id d = id_homework) (homework store0)
   \<and> map_option (\<lambda>d. hw_status (body d))
        (List.find (\<lambda>d. doc_id d = id_homework)
           (homework (snd (grade_submission id_submission
                             \<lparr>gr_grade = 9.5, gr_feedback = Some ''well done''\<rparr> store0))))
      = Some hw_graded
   \<and> oid id_absent = Inr id_absent
   \<and> List.find (\<lambda>d. doc_id d = id_absent) (submission store0) = None
   \<and> fst (grade_submission id_absent \<lparr>gr_grade = 9.5, gr_feedback = None\<rparr> store0)
      = Inl NotFound"
proof -
  have f: "List.find (\<lambda>d. doc_id d = id_submission) (submission store0)
             = Some (hd (submission store0))"
    by (simp add: store0_def)
  have o: "oid (sub_homework_id (body (hd (submission store0)))) = Inr id_homework"
    by (simp add: store0_def oid_id_homework)
  have h: "list_ex (\<lambda>d. doc_id d = id_homework) (homework store0)"
    by (simp add: store0_def)
  have n: "List.find (\<lambda>d. doc_id d = id_absent) (submission store0) = None"
    by (simp add: store0_def id_defs)
  have u: "map_option (\<lambda>d. hw_status (body d))
             (List.find (\<lambda>d. doc_id d = id_homework)
                (update_first (\<lambda>d. doc_id d = id_homework)
                   (set_homework_status hw_graded (clock store0)) (homework store0)))
           = Some hw_graded"
    by (simp add: store0_def set_homework_status_def)
  show ?thesis
    using grade_submission_effect [OF oid_id_submission, of store0
            "\<lparr>gr_grade = 9.5, gr_feedback = Some ''well done''\<rparr>"]
          grade_submission_effect [OF oid_id_absent, of store0
            "\<lparr>gr_grade = 9.5, gr_feedback = None\<rparr>"]
          f o h n u
    by (simp add: oid_id_submission oid_id_absent)
qed

section \<open>Students\<close>

text \<open>
  C5. When the code of the input belongs to a stored student, \<open>add_student\<close> answers
  \<open>DuplicateCode\<close> and each of the five collections is as before. When it belongs to
  none, the student is inserted at the end of the collection, then fetched again by the
  generated identifier; the identifier being new to the collection, as the store
  guarantees, the answer is the serialized form of the inserted document.
\<close>

theorem add_student_effect:
  "(list_ex (\<lambda>d. st_code (body d) = st_code st) (student db) \<longrightarrow>
      fst (add_student st db) = Inl DuplicateCode
    \<and> student (snd (add_student st db)) = student db
    \<and> lesson (snd (add_student st db)) = lesson db
    \<and> homework (snd (add_student st db)) = homework db
    \<and> submission (snd (add_student st db)) = submission db
    \<and> message (snd (add_student st db)) = message db)
 \<and> (\<not> list_ex (\<lambda>d. st_code (body d) = st_code st) (student db) \<longrightarrow>
      student (snd (add_student st db)) =
        student db @ [\<lparr>doc_id = new_oid (next_oid db), created_at = clock db,
                        updated_at = None, body = st\<rparr>]
    \<and> trace (snd (add_student st db)) =
        trace db @ [(FindOne, ''student''), (InsertOne, ''student''), (FindOne, ''student'')]
    \<and> ((\<forall>d\<in>set (student db). doc_id d \<noteq> new_oid (next_oid db)) \<longrightarrow>
        fst (add_student st db) =
          Inr (serialize (Some \<lparr>doc_id = new_oid (next_oid db), created_at = clock db,
                                 updated_at = None, body = st\<rparr>))))"
proof (cases "List.find (\<lambda>d. st_code (body d) = st_code st) (student db)")
  case None
  then show ?thesis
    by (simp add: add_student_def store_defs db_defs list_ex_find ObjectId_new_oid
        find_append_last find_None_set[symmetric] Let_def split: prod.splits)
next
  case (Some a)
  then show ?thesis
    by (simp add: add_student_def store_defs db_defs list_ex_find)
qed

theorem add_student_effect_witness:
  "(list_ex (\<lambda>d. st_code (body d) = st_code sara) (student store0)
     \<and> fst (add_student sara store0) = Inl DuplicateCode
     \<and> student (snd (add_student sara store0)) = student store0)
 \<and> (\<not> list_ex (\<lambda>d. st_code (body d) = st_code omar) (student store0)
     \<and> \<not> list_ex (\<lambda>d. doc_id d = new_oid (next_oid store0)) (student store0)
     \<and> map (\<lambda>d. st_code (body d)) (student (snd (add_student omar store0))) = [''1234'', ''5678'']
     \<and> map_option s_body (projr (fst (add_student omar store0))) = Some omar)"
proof -
  have d: "list_ex (\<lambda>d. st_code (body d) = st_code sara) (student store0)"
    by (simp add: store0_def)
  have n: "\<not> list_ex (\<lambda>d. st_code (body d) = st_code omar) (student store0)"
    by (simp add: store0_def sara_def omar_def)
  note ne = new_oid_store0
  have f: "\<forall>d\<in>set (student store0). doc_id d \<noteq> new_oid (next_oid store0)"
    using ne by (simp add: store0_def)
  have g: "\<not> list_ex (\<lambda>d. doc_id d = new_oid (next_oid store0)) (student store0)"
    using ne by (simp add: store0_def)
  have c: "map (\<lambda>d. st_code (body d)) (student store0) = [''1234'']"
    by (simp add: store0_def sara_def)
  have o: "st_code omar = ''5678''"
    by (simp add: omar_def)
  show ?thesis
    using add_student_effect [of sara store0] add_student_effect [of omar store0] d n f
    by (simp add: serialize_def c o g)
qed

lemma update_student_dup:
  assumes "oid student_id = Inr i"
    and "List.find (\<lambda>d. st_code (body d) = st_code data \<and> doc_id d \<noteq> i) (student db) = Some a"
  shows "fst (update_student student_id data db) = Inl DuplicateCode"
  using assms by (simp add: update_student_def store_defs db_defs)

lemma update_student_missing:
  assumes "oid student_id = Inr i"
    and "List.find (\<lambda>d. st_code (body d) = st_code data \<and> doc_id d \<noteq> i) (student db) = None"
    and "\<not> list_ex (\<lambda>d. doc_id d = i) (student db)"
  shows "fst (update_student student_id data db) = Inl NotFound"
    and "student (snd (update_student student_id data db)) = student db"
  using assms
  by (simp_all add: update_student_def store_defs db_defs count_one_def update_first_absent)

lemma update_student_ok:
  assumes "oid student_id = Inr i"
    and "List.find (\<lambda>d. st_code (body d) = st_code data \<and> doc_id d \<noteq> i) (student db) = None"
    and "List.find (\<lambda>d. doc_id d = i) (student db) = Some s"
  shows "fst (update_student student_id data db) =
           Inr (serialize (Some (set_all data (clock db) s)))"
    and "student (snd (update_student student_id data db)) =
           update_first (\<lambda>d. doc_id d = i) (set_all data (clock db)) (student db)"
proof -
  have ex: "list_ex (\<lambda>d. doc_id d = i) (student db)" using assms(3) by (simp add: list_ex_find)
  have f: "List.find (\<lambda>d. doc_id d = i)
             (update_first (\<lambda>d. doc_id d = i) (set_all data (clock db)) (student db))
           = Some (set_all data (clock db) s)"
    by (subst find_update_first) (simp_all add: set_all_def assms(3))
  show "fst (update_student student_id data db) =
           Inr (serialize (Some (set_all data (clock db) s)))"
    using assms(1,2) ex f
    by (simp add: update_student_def store_defs db_defs count_one_def)
  show "student (snd (update_student student_id data db)) =
           update_first (\<lambda>d. doc_id d = i) (set_all data (clock db)) (student db)"
    using assms(1,2) ex f
    by (simp add: update_student_def store_defs db_defs count_one_def)
qed

text \<open>
  C6, as amended. For a structurally valid student identifier, \<open>update_student\<close> answers
  \<open>DuplicateCode\<close> exactly when a stored student other than the identified one has the
  code of the input. When no other student has it, the update succeeds if the identified
  student exists, also when the code is its own current one, and answers \<open>NotFound\<close> if it
  does not exist. The uniqueness check comes first: an identifier that resolves to no
  student together with a code in use gives \<open>DuplicateCode\<close>, not \<open>NotFound\<close>.
\<close>

theorem update_student_effect:
  assumes "oid student_id = Inr i"
  shows "(fst (update_student student_id data db) = Inl DuplicateCode \<longleftrightarrow>
            (\<exists>d\<in>set (student db). st_code (body d) = st_code data \<and> doc_id d \<noteq> i))
       \<and> ((\<forall>d\<in>set (student db). st_code (body d) = st_code data \<longrightarrow> doc_id d = i) \<longrightarrow>
            (list_ex (\<lambda>d. doc_id d = i) (student db) \<longrightarrow>
               (\<exists>r. fst (update_student student_id data db) = Inr (Some r)
                    \<and> s_id r = i \<and> s_body r = data)
             \<and> student (snd (update_student student_id data db)) =
                 update_first (\<lambda>d. doc_id d = i) (set_all data (clock db)) (student db))
          \<and> (\<not> list_ex (\<lambda>d. doc_id d = i) (student db) \<longrightarrow>
               fst (update_student student_id data db) = Inl NotFound
             \<and> student (snd (update_student student_id data db)) = student db))"
proof (cases "List.find (\<lambda>d. st_code (body d) = st_code data \<and> doc_id d \<noteq> i) (student db)")
  case (Some a)
  then have ex: "\<exists>d\<in>set (student db). st_code (body d) = st_code data \<and> doc_id d \<noteq> i"
    using find_None_set[of "\<lambda>d. st_code (body d) = st_code data \<and> doc_id d \<noteq> i" "student db"]
    by auto
  then have no: "\<not> (\<forall>d\<in>set (student db). st_code (body d) = st_code data \<longrightarrow> doc_id d = i)"
    by blast
  show ?thesis
    using update_student_dup[OF assms Some] ex no by blast
next
  case None
  then have no: "\<forall>d\<in>set (student db). st_code (body d) = st_code data \<longrightarrow> doc_id d = i"
    by (auto simp: find_None_set)
  then have nex: "\<not> (\<exists>d\<in>set (student db). st_code (body d) = st_code data \<and> doc_id d \<noteq> i)"
    by blast
  show ?thesis
  proof (cases "List.find (\<lambda>d. doc_id d = i) (student db)")
    case n2: None
    then have a: "\<not> list_ex (\<lambda>d. doc_id d = i) (student db)" by (simp add: list_ex_find)
    show ?thesis
      using update_student_missing[OF assms None a] a nex by simp
  next
    case (Some s)
    then have ex: "list_ex (\<lambda>d. doc_id d = i) (student db)" by (simp add: list_ex_find)
    have di: "doc_id s = i" using Some by (auto dest: find_Some_holds)
    have r: "\<exists>r. fst (update_student student_id data db) = Inr (Some r)
                \<and> s_id r = i \<and> s_body r = data"
      using update_student_ok(1)[OF assms None Some] di
      by (simp add: serialize_def set_all_def)
    have nd: "fst (update_student student_id data db) \<noteq> Inl DuplicateCode"
      using r by auto
    show ?thesis
      using update_student_ok(2)[OF assms None Some] r ex nex nd
      by blast
  qed
qed

theorem update_student_effect_witness:
  "oid id_student = Inr id_student
   \<and> \<not> list_ex (\<lambda>d. st_code (body d) = st_code sara \<and> doc_id d \<noteq> id_student) (student store0)
   \<and> list_ex (\<lambda>d. doc_id d = id_student) (student store0)
   \<and> map_option s_body (projr (fst (update_student id_student sara store0))) = Some sara
   \<and> oid id_absent = Inr id_absent
   \<and> \<not> list_ex (\<lambda>d. st_code (body d) = st_code omar \<and> doc_id d \<noteq> id_absent) (student store0)
   \<and> \<not> list_ex (\<lambda>d. doc_id d = id_absent) (student store0)
   \<and> fst (update_student id_absent omar store0) = Inl NotFound"
proof -
  have a: "\<forall>d\<in>set (student store0). st_code (body d) = st_code sara \<longrightarrow> doc_id d = id_student"
    by (simp add: store0_def)
  have b: "list_ex (\<lambda>d. doc_id d = id_student) (student store0)"
    by (simp add: store0_def)
  have c: "\<forall>d\<in>set (student store0). st_code (body d) = st_code omar \<longrightarrow> doc_id d = id_absent"
    by (simp add: store0_def sara_def omar_def)
  have d: "\<not> list_ex (\<lambda>d. doc_id d = id_absent) (student store0)"
    by (simp add: store0_def id_defs)
  have e: "\<exists>r. fst (update_student id_student sara store0) = Inr (Some r) \<and> s_body r = sara"
    using update_student_effect [OF oid_id_student, of sara store0] a b by blast
  have f: "fst (update_student id_absent omar store0) = Inl NotFound"
    using update_student_effect [OF oid_id_absent, of omar store0] c d by blast
  from e have g: "map_option s_body (projr (fst (update_student id_student sara store0))) = Some sara"
    by auto
  have a': "\<not> list_ex (\<lambda>d. st_code (body d) = st_code sara \<and> doc_id d \<noteq> id_student) (student store0)"
    by (simp add: store0_def)
  have c': "\<not> list_ex (\<lambda>d. st_code (body d) = st_code omar \<and> doc_id d \<noteq> id_absent) (student store0)"
    by (simp add: store0_def sara_def omar_def)
  show ?thesis
    using a' b c' d f g oid_id_student oid_id_absent by blast
qed

text \<open>
  The claim as stated fails: \<open>id_absent\<close> resolves to no student of the example store,
  yet updating it with the code of the stored student answers \<open>DuplicateCode\<close>.
\<close>

theorem update_student_absent_counterexample:
  "oid id_absent = Inr id_absent
   \<and> map doc_id (student store0) = [id_student]
   \<and> id_absent \<noteq> id_student
   \<and> fst (update_student id_absent sara store0) = Inl DuplicateCode
   \<and> fst (update_student id_absent sara store0) \<noteq> Inl NotFound"
proof -
  have f: "List.find (\<lambda>d. st_code (body d) = st_code sara \<and> doc_id d \<noteq> id_absent)
             (student store0) = Some (hd (student store0))"
    by (simp add: store0_def id_defs)
  have d: "fst (update_student id_absent sara store0) = Inl DuplicateCode"
    by (rule update_student_dup [OF oid_id_absent f])
  have i: "map doc_id (student store0) = [id_student]"
    by (simp add: store0_def)
  have n: "id_absent \<noteq> id_student"
    by (simp add: id_defs)
  show ?thesis
    using d i n oid_id_absent by simp
qed

section \<open>Deleting a student\<close>

lemma delete_submissions_of_effect:
  "submission (delete_submissions_of hws db) =
     filter (\<lambda>d. \<not> (\<exists>h\<in>set hws. sub_homework_id (body d) = doc_id h)) (submission db)
   \<and> student (delete_submissions_of hws db) = student db
   \<and> lesson (delete_submissions_of hws db) = lesson db
   \<and> homework (delete_submissions_of hws db) = homework db
   \<and> message (delete_submissions_of hws db) = message db
   \<and> trace (delete_submissions_of hws db) =
       trace db @ replicate (length hws) (DeleteMany, ''submission'')"
proof (induction hws arbitrary: db)
  case Nil
  show ?case by simp
next
  case (Cons hw hws)
  have a: "filter (\<lambda>d. \<not> (\<exists>h\<in>set hws. sub_homework_id (body d) = doc_id h))
             (filter (\<lambda>d. sub_homework_id (body d) \<noteq> doc_id hw) (submission db))
           = filter (\<lambda>d. \<not> (\<exists>h\<in>set (hw # hws). sub_homework_id (body d) = doc_id h))
               (submission db)"
    by (induction "submission db") (auto intro: filter_cong)
  show ?case
    using a by (simp add: Cons.IH store_defs db_defs replicate_app_Cons_same)
qed

lemma delete_student_submissions:
  assumes "oid student_id = Inr i"
  shows "submission (snd (delete_student student_id db)) =
           filter (\<lambda>d. \<not> (\<exists>h\<in>set (homework db). hw_student_id (body h) = student_id
                              \<and> sub_homework_id (body d) = doc_id h)) (submission db)"
proof -
  have "submission (snd (delete_student student_id db)) =
          filter (\<lambda>d. \<not> (\<exists>h\<in>set (filter (\<lambda>d. hw_student_id (body d) = student_id)
                                        (homework db)).
                            sub_homework_id (body d) = doc_id h)) (submission db)"
    using assms
    by (simp add: delete_student_def store_defs db_defs delete_submissions_of_effect Let_def
        split: prod.splits del: set_filter)
  also have "\<dots> = filter (\<lambda>d. \<not> (\<exists>h\<in>set (homework db). hw_student_id (body h) = student_id
                              \<and> sub_homework_id (body d) = doc_id h)) (submission db)"
    by (rule filter_cong) auto
  finally show ?thesis .
qed

lemma delete_student_effect:
  assumes "oid student_id = Inr i"
  shows "lesson (snd (delete_student student_id db)) =
           filter (\<lambda>d. le_student_id (body d) \<noteq> student_id) (lesson db)"
    and "homework (snd (delete_student student_id db)) =
           filter (\<lambda>d. hw_student_id (body d) \<noteq> student_id) (homework db)"
    and "message (snd (delete_student student_id db)) =
           filter (\<lambda>d. msg_student_id (body d) \<noteq> student_id) (message db)"
    and "student (snd (delete_student student_id db)) =
           remove_first (\<lambda>d. doc_id d = i) (student db)"
    and "trace (snd (delete_student student_id db)) =
           trace db @ [(DeleteMany, ''lesson''), (Find, ''homework'')] @
           replicate (length (filter (\<lambda>d. hw_student_id (body d) = student_id) (homework db)))
             (DeleteMany, ''submission'') @
           [(DeleteMany, ''homework''), (DeleteMany, ''message''), (DeleteOne, ''student'')]"
    and "fst (delete_student student_id db) =
           (if list_ex (\<lambda>d. doc_id d = i) (student db) then Inr () else Inl NotFound)"
  using assms
  by (simp_all add: delete_student_def store_defs db_defs count_one_def
      delete_submissions_of_effect Let_def split: prod.splits)


lemma delete_student_upper_case_submission:
  "oid id_homework_upper = Inr id_homework
   \<and> map doc_id (homework store2) = [id_homework]
   \<and> map (\<lambda>d. hw_student_id (body d)) (homework store2) = [id_student]
   \<and> map (\<lambda>d. sub_homework_id (body d)) (submission store2) = [id_homework, id_homework_upper]
   \<and> fst (delete_student id_student store2) = Inr ()
   \<and> homework (snd (delete_student id_student store2)) = []
   \<and> map (\<lambda>d. sub_homework_id (body d)) (submission (snd (delete_student id_student store2)))
       = [id_homework_upper]"
proof -
  note e = delete_student_effect [OF oid_id_student, of store2]
  note s = delete_student_submissions [OF oid_id_student, of store2]
  have x: "list_ex (\<lambda>d. doc_id d = id_student) (student store2)"
    unfolding store2_effect(4) by (simp add: store0_def)
  have f: "fst (delete_student id_student store2) = Inr ()"
    using e(6) x by simp
  have h: "filter (\<lambda>d. hw_student_id (body d) \<noteq> id_student) (homework store2) = []"
    using store2_effect(3) by (cases "homework store2") auto
  have u: "map (\<lambda>d. sub_homework_id (body d))
             (filter (\<lambda>d. \<not> (\<exists>h\<in>set (homework store2). hw_student_id (body h) = id_student
                           \<and> sub_homework_id (body d) = doc_id h)) (submission store2))
           = [id_homework_upper]"
    by (simp add: store2_def submit_homework_def oid_id_homework_upper store_defs db_defs
          ObjectId_new_oid Let_def store0_def set_homework_status_def split: prod.splits,
        simp add: id_defs id_homework_upper_def)
  show ?thesis
    using oid_id_homework_upper store2_effect(1,2,3) f trans [OF e(2) h] u [folded s]
    by blast
qed

text \<open>
  C1. \<open>delete_student\<close> finds the student by the identifier that the text of the request
  denotes, but deletes the lessons, homeworks and messages whose \<open>student_id\<close> is that
  text itself. On the upper-case text of the identifier of the example student the call
  succeeds and the student is deleted, while its lesson, its homework, the submission of
  that homework and its message, all stored under the text of the student's own \<open>_id\<close>,
  remain as they were.
\<close>

theorem delete_student_upper_case_identifier:
  "oid id_student_upper = Inr id_student
   \<and> map doc_id (student store0) = [id_student]
   \<and> map (\<lambda>d. le_student_id (body d)) (lesson store0) = [id_student]
   \<and> map (\<lambda>d. hw_student_id (body d)) (homework store0) = [id_student]
   \<and> map (\<lambda>d. msg_student_id (body d)) (message store0) = [id_student]
   \<and> map (\<lambda>d. sub_homework_id (body d)) (submission store0) = map doc_id (homework store0)
   \<and> fst (delete_student id_student_upper store0) = Inr ()
   \<and> student (snd (delete_student id_student_upper store0)) = []
   \<and> lesson (snd (delete_student id_student_upper store0)) = lesson store0
   \<and> homework (snd (delete_student id_student_upper store0)) = homework store0
   \<and> submission (snd (delete_student id_student_upper store0)) = submission store0
   \<and> message (snd (delete_student id_student_upper store0)) = message store0"
proof -
  note e = delete_student_effect [OF oid_id_student_upper, of store0]
  note s = delete_student_submissions [OF oid_id_student_upper, of store0]
  have d: "map doc_id (student store0) = [id_student]
           \<and> map (\<lambda>d. le_student_id (body d)) (lesson store0) = [id_student]
           \<and> map (\<lambda>d. hw_student_id (body d)) (homework store0) = [id_student]
           \<and> map (\<lambda>d. msg_student_id (body d)) (message store0) = [id_student]
           \<and> map (\<lambda>d. sub_homework_id (body d)) (submission store0) = map doc_id (homework store0)"
    by (simp add: store0_def)
  have l: "filter (\<lambda>d. le_student_id (body d) \<noteq> id_student_upper) (lesson store0) = lesson store0"
    by (simp add: store0_def id_defs id_student_upper_def)
  have h: "filter (\<lambda>d. hw_student_id (body d) \<noteq> id_student_upper) (homework store0) = homework store0"
    by (simp add: store0_def id_defs id_student_upper_def)
  have m: "filter (\<lambda>d. msg_student_id (body d) \<noteq> id_student_upper) (message store0) = message store0"
    by (simp add: store0_def id_defs id_student_upper_def)
  have u: "filter (\<lambda>d. \<not> (\<exists>h\<in>set (homework store0). hw_student_id (body h) = id_student_upper
                           \<and> sub_homework_id (body d) = doc_id h)) (submission store0)
           = submission store0"
    by (simp add: store0_def id_defs id_student_upper_def)
  have r: "remove_first (\<lambda>d. doc_id d = id_student) (student store0) = []"
    by (simp add: store0_def)
  have x: "list_ex (\<lambda>d. doc_id d = id_student) (student store0)"
    by (simp add: store0_def)
  have f: "fst (delete_student id_student_upper store0) = Inr ()"
    using e(6) x by simp
  show ?thesis
    using oid_id_student_upper d f trans [OF e(4) r] trans [OF e(1) l] trans [OF e(2) h]
      trans [OF s u] trans [OF e(3) m]
    by blast
qed



section \<open>Login\<close>

lemma strip_examples:
  "strip '' 9999 '' = ''9999''"
  "strip '' 9999'' = ''9999''"
  "strip ''1234'' = ''1234''"
  "strip ''abcd'' = ''abcd''"
  by (simp_all add: strip_def is_space_def)

text \<open>
  C8, as amended. \<open>login\<close> first removes the leading and trailing white space of the
  presented code and compares what remains, as an exact string: when it is the configured
  teacher code the answer is the teacher role with no student payload and the store is
  not accessed; otherwise the students are looked up once, and the answer is the student
  role with the serialized first student whose code is exactly the stripped text, or
  \<open>NotFound\<close> when there is none.
\<close>

theorem login_effect:
  "(strip (code req) = TEACHER_CODE env \<longrightarrow>
      login env req db = (Inr \<lparr>role = teacher_role, student_payload = None\<rparr>, db))
 \<and> (strip (code req) \<noteq> TEACHER_CODE env \<longrightarrow>
      trace (snd (login env req db)) = trace db @ [(FindOne, ''student'')]
    \<and> student (snd (login env req db)) = student db
    \<and> (\<forall>s. List.find (\<lambda>d. st_code (body d) = strip (code req)) (student db) = Some s \<longrightarrow>
          fst (login env req db) =
            Inr \<lparr>role = student_role, student_payload = serialize (Some s)\<rparr>)
    \<and> (List.find (\<lambda>d. st_code (body d) = strip (code req)) (student db) = None \<longrightarrow>
          fst (login env req db) = Inl NotFound))"
proof (cases "List.find (\<lambda>d. st_code (body d) = strip (code req)) (student db)")
  case None
  then show ?thesis
    by (simp add: login_def store_defs db_defs Let_def)
next
  case (Some s)
  then show ?thesis
    by (simp add: login_def store_defs db_defs Let_def)
qed

theorem login_effect_witness:
  "strip (code \<lparr>code = '' 9999 ''\<rparr>) = TEACHER_CODE None
   \<and> login None \<lparr>code = '' 9999 ''\<rparr> store0
       = (Inr \<lparr>role = teacher_role, student_payload = None\<rparr>, store0)
   \<and> strip (code \<lparr>code = ''1234''\<rparr>) \<noteq> TEACHER_CODE None
   \<and> List.find (\<lambda>d. st_code (body d) = strip (code \<lparr>code = ''1234''\<rparr>)) (student store0)
       = Some (hd (student store0))
   \<and> fst (login None \<lparr>code = ''1234''\<rparr> store0)
       = Inr \<lparr>role = student_role, student_payload = serialize (Some (hd (student store0)))\<rparr>
   \<and> strip (code \<lparr>code = ''abcd''\<rparr>) \<noteq> TEACHER_CODE None
   \<and> List.find (\<lambda>d. st_code (body d) = strip (code \<lparr>code = ''abcd''\<rparr>)) (student store0)
       = None
   \<and> fst (login None \<lparr>code = ''abcd''\<rparr> store0) = Inl NotFound"
proof -
  have t: "strip (code \<lparr>code = '' 9999 ''\<rparr>) = TEACHER_CODE None"
    by (simp add: strip_examples TEACHER_CODE_def)
  have s: "strip (code \<lparr>code = ''1234''\<rparr>) \<noteq> TEACHER_CODE None"
    by (simp add: strip_examples TEACHER_CODE_def)
  have f: "List.find (\<lambda>d. st_code (body d) = strip (code \<lparr>code = ''1234''\<rparr>)) (student store0)
             = Some (hd (student store0))"
    by (simp add: strip_examples store0_def sara_def)
  have u: "strip (code \<lparr>code = ''abcd''\<rparr>) \<noteq> TEACHER_CODE None"
    by (simp add: strip_examples TEACHER_CODE_def)
  have n: "List.find (\<lambda>d. st_code (body d) = strip (code \<lparr>code = ''abcd''\<rparr>)) (student store0)
             = None"
    by (simp add: strip_examples store0_def sara_def)
  show ?thesis
    using login_effect [of "\<lparr>code = '' 9999 ''\<rparr>" None store0]
          login_effect [of "\<lparr>code = ''1234''\<rparr>" None store0]
          login_effect [of "\<lparr>code = ''abcd''\<rparr>" None store0]
          t s f u n
    by blast
qed

text \<open>
  The claim as stated fails: the code \<open>9999\<close> with a leading space is not the teacher
  code, and no student of the example store has it, yet the answer is the teacher role
  and not \<open>NotFound\<close>.
\<close>

theorem login_strip_counterexample:
  "code \<lparr>code = '' 9999''\<rparr> \<noteq> TEACHER_CODE None
   \<and> \<not> list_ex (\<lambda>d. st_code (body d) = code \<lparr>code = '' 9999''\<rparr>) (student store0)
   \<and> fst (login None \<lparr>code = '' 9999''\<rparr> store0)
       = Inr \<lparr>role = teacher_role, student_payload = None\<rparr>
   \<and> fst (login None \<lparr>code = '' 9999''\<rparr> store0) \<noteq> Inl NotFound"
proof -
  have a: "code \<lparr>code = '' 9999''\<rparr> \<noteq> TEACHER_CODE None"
    by (simp add: TEACHER_CODE_def)
  have b: "\<not> list_ex (\<lambda>d. st_code (body d) = code \<lparr>code = '' 9999''\<rparr>) (student store0)"
    by (simp add: store0_def sara_def)
  have c: "fst (login None \<lparr>code = '' 9999''\<rparr> store0)
             = Inr \<lparr>role = teacher_role, student_payload = None\<rparr>"
    by (simp add: login_def strip_examples TEACHER_CODE_def)
  show ?thesis
    using a b c by simp
qed

section \<open>The student identifier of a submission\<close>

text \<open>
  C10. \<open>submit_homework\<close> neither validates its \<open>student_id\<close> nor looks it up: for a
  structurally valid identifier of a stored homework and every text \<open>student_id\<close>, the
  call succeeds, the one submission it adds holds that text as its \<open>student_id\<close>, the
  store calls are the lookup of the homework, the insertion, the update of the homework
  and the lookup of the inserted submission, none of them on the students, and the
  answer is the inserted submission when its identifier is new to the collection.
\<close>

theorem submit_homework_student_id:
  assumes "oid hw_id = Inr i"
    and "list_ex (\<lambda>d. doc_id d = i) (homework db)"
  shows "map (\<lambda>d. sub_student_id (body d))
           (submission (snd (submit_homework hw_id student_id req db)))
           = map (\<lambda>d. sub_student_id (body d)) (submission db) @ [student_id]
       \<and> student (snd (submit_homework hw_id student_id req db)) = student db
       \<and> trace (snd (submit_homework hw_id student_id req db)) =
           trace db @ [(FindOne, ''homework''), (InsertOne, ''submission''),
                       (UpdateOne, ''homework''), (FindOne, ''submission'')]
       \<and> (\<exists>r. fst (submit_homework hw_id student_id req db) = Inr (Some r))
       \<and> (\<not> list_ex (\<lambda>d. doc_id d = new_oid (next_oid db)) (submission db) \<longrightarrow>
            map_option (\<lambda>r. sub_student_id (s_body r))
              (projr (fst (submit_homework hw_id student_id req db))) = Some student_id)"
proof -
  obtain h where h: "List.find (\<lambda>d. doc_id d = i) (homework db) = Some h"
    using assms(2) by (auto simp: list_ex_find)
  show ?thesis
    using assms(1) h
    by (simp add: submit_homework_def store_defs db_defs list_ex_find ObjectId_new_oid
        find_append_last serialize_def Let_def split: option.splits prod.splits)
qed

theorem submit_homework_student_id_witness:
  "oid id_homework = Inr id_homework
   \<and> list_ex (\<lambda>d. doc_id d = id_homework) (homework store0)
   \<and> ObjectId ''nobody'' = None
   \<and> \<not> list_ex (\<lambda>d. doc_id d = ''nobody'') (student store0)
   \<and> \<not> list_ex (\<lambda>d. hw_student_id (body d) = ''nobody'') (homework store0)
   \<and> map (\<lambda>d. sub_student_id (body d))
        (submission (snd (submit_homework id_homework ''nobody'' \<lparr>file_url = None\<rparr> store0)))
       = [id_student, ''nobody'']
   \<and> trace (snd (submit_homework id_homework ''nobody'' \<lparr>file_url = None\<rparr> store0)) =
       [(FindOne, ''homework''), (InsertOne, ''submission''),
        (UpdateOne, ''homework''), (FindOne, ''submission'')]"
proof -
  have a: "list_ex (\<lambda>d. doc_id d = id_homework) (homework store0)"
    by (simp add: store0_def)
  have b: "ObjectId ''nobody'' = None"
    by (simp add: ObjectId_def)
  have c: "\<not> list_ex (\<lambda>d. doc_id d = ''nobody'') (student store0)"
    by (simp add: store0_def id_defs)
  have d: "\<not> list_ex (\<lambda>d. hw_student_id (body d) = ''nobody'') (homework store0)"
    by (simp add: store0_def id_defs)
  have s: "map (\<lambda>d. sub_student_id (body d)) (submission store0) = [id_student]"
    by (simp add: store0_def)
  have t: "trace store0 = []"
    by (simp add: store0_def)
  note T = submit_homework_student_id [OF oid_id_homework a, of "''nobody''" "\<lparr>file_url = None\<rparr>"]
  have 1: "map (\<lambda>d. sub_student_id (body d))
             (submission (snd (submit_homework id_homework ''nobody'' \<lparr>file_url = None\<rparr> store0)))
           = map (\<lambda>d. sub_student_id (body d)) (submission store0) @ [''nobody'']"
    using T by blast
  have 2: "trace (snd (submit_homework id_homework ''nobody'' \<lparr>file_url = None\<rparr> store0)) =
             trace store0 @ [(FindOne, ''homework''), (InsertOne, ''submission''),
                             (UpdateOne, ''homework''), (FindOne, ''submission'')]"
    using T by blast
  have m1: "map (\<lambda>d. sub_student_id (body d))
             (submission (snd (submit_homework id_homework ''nobody'' \<lparr>file_url = None\<rparr> store0)))
           = [id_student, ''nobody'']"
    unfolding 1 s by simp
  have m2: "trace (snd (submit_homework id_homework ''nobody'' \<lparr>file_url = None\<rparr> store0)) =
             [(FindOne, ''homework''), (InsertOne, ''submission''),
              (UpdateOne, ''homework''), (FindOne, ''submission'')]"
    unfolding 2 t by simp
  show ?thesis
    using a b c d m1 m2 oid_id_homework by blast
qed

section \<open>Identifier validation\<close>

text \<open>
  C4. \<open>delete_homework\<close> on a text that is no identifier answers \<open>InvalidIdentifier\<close>, but
  only after it has called \<open>delete_many\<close> on the submissions: the store is accessed before
  the identifier is checked. \<open>delete_student\<close>, on the same text, checks first and leaves
  the trace of store calls empty.
\<close>

theorem delete_homework_invalid_identifier:
  "oid ''not-an-id'' = Inl InvalidIdentifier
   \<and> fst (delete_homework ''not-an-id'' store0) = Inl InvalidIdentifier
   \<and> trace (snd (delete_homework ''not-an-id'' store0)) = [(DeleteMany, ''submission'')]
   \<and> fst (delete_student ''not-an-id'' store0) = Inl InvalidIdentifier
   \<and> trace (snd (delete_student ''not-an-id'' store0)) = []"
proof -
  have o: "oid ''not-an-id'' = Inl InvalidIdentifier"
    by (simp add: oid_def ObjectId_def)
  have t: "trace store0 = []"
    by (simp add: store0_def)
  have h: "fst (delete_homework ''not-an-id'' store0) = Inl InvalidIdentifier
           \<and> trace (snd (delete_homework ''not-an-id'' store0)) = [(DeleteMany, ''submission'')]"
    using o t by (simp add: delete_homework_def store_defs db_defs split: prod.splits)
  have s: "fst (delete_student ''not-an-id'' store0) = Inl InvalidIdentifier
           \<and> trace (snd (delete_student ''not-an-id'' store0)) = []"
    using o t by (simp add: delete_student_def)
  show ?thesis
    using o h s by simp
qed

end
